theory Spec2Isabelle
  imports
    Complex_Main
    "HOL-Library.Word"
    "HOL-Library.Sublist"
    "HOL-Library.Char_ord"
    "HOL-Library.List_Lexorder"
    "HOL-Library.Multiset"
begin

section \<open>Data model\<close>

text \<open>
  The memory subsystem of the repository: \<^verbatim>\<open>async_memory_manager.{h,cpp}\<close> (the
  write-back engine) and \<^verbatim>\<open>advanced_memory_manager.{h,cpp}\<close> (the orchestrator).
  The headers \<^verbatim>\<open>memory_manager.h\<close>, \<^verbatim>\<open>weight_manager.h\<close>, \<^verbatim>\<open>semantic_search.h\<close>,
  \<^verbatim>\<open>event_system.h\<close>, \<^verbatim>\<open>lru_cache.h\<close> and \<^verbatim>\<open>logger.h\<close> are not among the sources.
  What the two classes do with those collaborators is modelled at the interface: a
  collaborator that only receives calls is the list of calls it received, and a
  collaborator that answers a query is a function taken as a parameter.
  \<^verbatim>\<open>Logger::log\<close> writes to a process-wide log that no operation reads back; the
  log lines are left out of the state.
\<close>

datatype MemoryType = Short | Mid | Long

datatype MemoryCategory = Work | Family | Friendship | Happiness | Other

text \<open>
  \<^verbatim>\<open>MemoryItem{content, type, category, timestamp}\<close>, in the order of the aggregate
  initialisers of the sources. Strings are byte strings (\<^verbatim>\<open>std::string\<close>).
\<close>

record MemoryItem =
  content :: string
  type :: MemoryType
  category :: MemoryCategory
  timestamp :: string

text \<open>
  Modelled from the spec: the integer encoding of the category enumeration, whose
  declaration is in \<^verbatim>\<open>memory_manager.h\<close>; the spec fixes the order
  Work, Family, Friendship, Happiness, Other as 0..4.
\<close>

fun category_as_int :: "MemoryCategory \<Rightarrow> nat" where
  "category_as_int Work = 0"
| "category_as_int Family = 1"
| "category_as_int Friendship = 2"
| "category_as_int Happiness = 3"
| "category_as_int Other = 4"

text \<open>\<^verbatim>\<open>std::to_string\<close> on a non-negative integer: its decimal digits.\<close>

fun to_string :: "nat \<Rightarrow> string" where
  "to_string n =
     (if n < 10 then [char_of (48 + n)]
      else to_string (n div 10) @ [char_of (48 + n mod 10)])"

declare to_string.simps [simp del]

section \<open>The write-back engine (AsyncMemoryManager)\<close>

text \<open>
  The state of an \<^verbatim>\<open>AsyncMemoryManager\<close> object together with the three destination
  files it appends to.
  \<^item> \<open>store\<close>: the calls \<^verbatim>\<open>MemoryManager::addMemory(content, type, category)\<close> the base
    class received, in order (the base class is not among the sources);
  \<^item> \<open>base_saves\<close>: how often \<^verbatim>\<open>MemoryManager::save()\<close> was invoked;
  \<^item> \<open>pendingWrites\<close>: the \<^verbatim>\<open>std::queue\<close>, front first;
  \<^item> \<open>notified\<close>: how often \<^verbatim>\<open>saveCondition\<close> was notified;
  \<^item> \<open>saveThread\<close>: whether the worker thread is joinable;
  \<^item> \<open>sfile\<close>, \<open>mfile\<close>, \<open>lfile\<close>: the lines appended to \<^verbatim>\<open>SHORT_PATH\<close>, \<^verbatim>\<open>MID_PATH\<close>
    and \<^verbatim>\<open>LONG_PATH\<close>, oldest first; every write is taken to succeed.
\<close>

record AsyncMemoryManager =
  store :: "(string \<times> MemoryType \<times> MemoryCategory) list"
  base_saves :: nat
  pendingWrites :: "MemoryItem list"
  shouldStop :: bool
  isSavingFlag :: bool
  notified :: nat
  saveThread :: bool
  sfile :: "string list"
  mfile :: "string list"
  lfile :: "string list"

definition BATCH_SIZE :: nat where
  "BATCH_SIZE = 100"

text \<open>The constructor: empty queue, worker thread started.\<close>

definition AsyncMemoryManager_new :: AsyncMemoryManager where
  "AsyncMemoryManager_new =
     \<lparr> store = [], base_saves = 0, pendingWrites = [], shouldStop = False,
       isSavingFlag = False, notified = 0, saveThread = True,
       sfile = [], mfile = [], lfile = [] \<rparr>"

text \<open>The line \<^verbatim>\<open>saveBatch\<close> writes for one item.\<close>

definition line_of :: "MemoryItem \<Rightarrow> string" where
  "line_of item =
     content item @ ''|'' @ to_string (category_as_int (category item)) @ ''|''
       @ timestamp item @ [CHR 0x0A]"

text \<open>One turn of the \<^verbatim>\<open>for\<close> loop of \<^verbatim>\<open>saveBatch\<close>: the \<^verbatim>\<open>switch\<close> on the type.\<close>

definition write_item :: "MemoryItem \<Rightarrow> AsyncMemoryManager \<Rightarrow> AsyncMemoryManager" where
  "write_item item m =
     (case type item of
        Short \<Rightarrow> m\<lparr>sfile := sfile m @ [line_of item]\<rparr>
      | Mid \<Rightarrow> m\<lparr>mfile := mfile m @ [line_of item]\<rparr>
      | Long \<Rightarrow> m\<lparr>lfile := lfile m @ [line_of item]\<rparr>)"

fun saveBatch :: "MemoryItem list \<Rightarrow> AsyncMemoryManager \<Rightarrow> AsyncMemoryManager" where
  "saveBatch [] m = m"
| "saveBatch (item # batch) m = saveBatch batch (write_item item m)"

text \<open>
  The loop shared by \<^verbatim>\<open>flushPendingWrites\<close> and \<^verbatim>\<open>getPendingBatch\<close>:
  \<^verbatim>\<open>while (!pendingWrites.empty() && batch.size() < BATCH_SIZE)\<close>, moving the front of
  the queue to the back of the batch. It returns the batch and the queue that is left.
\<close>

fun drain_loop :: "MemoryItem list \<Rightarrow> MemoryItem list \<Rightarrow> MemoryItem list \<times> MemoryItem list" where
  "drain_loop [] batch = (batch, [])"
| "drain_loop (front # queue) batch =
     (if length batch < BATCH_SIZE then drain_loop queue (batch @ [front])
      else (batch, front # queue))"

definition getPendingBatch :: "AsyncMemoryManager \<Rightarrow> MemoryItem list \<times> AsyncMemoryManager" where
  "getPendingBatch m =
     (let (batch, rest) = drain_loop (pendingWrites m) []
      in (batch, m\<lparr>pendingWrites := rest\<rparr>))"

definition flushPendingWrites :: "AsyncMemoryManager \<Rightarrow> AsyncMemoryManager" where
  "flushPendingWrites m =
     (if pendingWrites m = [] then m
      else
        let (batch, rest) = drain_loop (pendingWrites m) [];
            m' = m\<lparr>pendingWrites := rest\<rparr>
        in if batch \<noteq> [] then saveBatch batch m' else m')"

definition asyncSave :: "AsyncMemoryManager \<Rightarrow> AsyncMemoryManager" where
  "asyncSave m = m\<lparr>notified := notified m + 1\<rparr>"

text \<open>
  \<^verbatim>\<open>AsyncMemoryManager::addMemory\<close>; \<open>now\<close> is what \<^verbatim>\<open>time(nullptr)\<close> returns.
\<close>

definition addMemory_async ::
  "string \<Rightarrow> MemoryType \<Rightarrow> MemoryCategory \<Rightarrow> nat \<Rightarrow> AsyncMemoryManager \<Rightarrow> AsyncMemoryManager" where
  "addMemory_async c t cat now m =
     (let m1 = m\<lparr>store := store m @ [(c, t, cat)]\<rparr>;
          item = \<lparr>content = c, type = t, category = cat, timestamp = to_string now\<rparr>;
          m2 = m1\<lparr>pendingWrites := pendingWrites m1 @ [item]\<rparr>;
          m3 = m2\<lparr>notified := notified m2 + 1\<rparr>
      in if length (pendingWrites m3) \<ge> BATCH_SIZE then asyncSave m3 else m3)"

text \<open>\<^verbatim>\<open>AsyncMemoryManager::save\<close>.\<close>

definition save :: "AsyncMemoryManager \<Rightarrow> AsyncMemoryManager" where
  "save m = (let m' = flushPendingWrites m in m'\<lparr>base_saves := base_saves m' + 1\<rparr>)"

text \<open>
  One turn of the \<^verbatim>\<open>while\<close> loop of \<^verbatim>\<open>saveWorker\<close> after its wait has returned. The
  batch is taken under the lock and written after the lock is released; the writes touch
  only the files, which no other operation of the class reads, so the turn is one step.
  With \<open>shouldStop\<close> set the worker leaves the loop without taking a batch.
\<close>

definition saveWorker_turn :: "AsyncMemoryManager \<Rightarrow> AsyncMemoryManager" where
  "saveWorker_turn m =
     (if shouldStop m then m
      else
        let (batch, m') = getPendingBatch m
        in if batch \<noteq> [] then
             (saveBatch batch (m'\<lparr>isSavingFlag := True\<rparr>))\<lparr>isSavingFlag := False\<rparr>
           else m')"

text \<open>The destructor: stop and join the worker, then one \<^verbatim>\<open>flushPendingWrites\<close>.\<close>

definition AsyncMemoryManager_destroy :: "AsyncMemoryManager \<Rightarrow> AsyncMemoryManager" where
  "AsyncMemoryManager_destroy m =
     (let m1 = m\<lparr>shouldStop := True\<rparr>;
          m2 = m1\<lparr>notified := notified m1 + 1\<rparr>;
          m3 = (if saveThread m2 then m2\<lparr>saveThread := False\<rparr> else m2)
      in flushPendingWrites m3)"

text \<open>
  A schedule of the engine: calls of \<^verbatim>\<open>addMemory\<close> by the callers interleaved with
  turns of the worker thread.
\<close>

datatype Step = Add string MemoryType MemoryCategory nat | Worker

fun step :: "Step \<Rightarrow> AsyncMemoryManager \<Rightarrow> AsyncMemoryManager" where
  "step (Add c t cat now) m = addMemory_async c t cat now m"
| "step Worker m = saveWorker_turn m"

fun run :: "Step list \<Rightarrow> AsyncMemoryManager \<Rightarrow> AsyncMemoryManager" where
  "run [] m = m"
| "run (a # as) m = run as (step a m)"

section \<open>The orchestrator (AdvancedMemoryManager)\<close>

subsection \<open>Classifier\<close>

text \<open>
  \<^verbatim>\<open>::tolower\<close> in the C locale, the locale a program runs in unless it calls
  \<^verbatim>\<open>setlocale\<close>: the bytes \<^verbatim>\<open>A\<close>..\<^verbatim>\<open>Z\<close> move to \<^verbatim>\<open>a\<close>..\<^verbatim>\<open>z\<close>, every other byte is
  unchanged.
\<close>

definition tolower :: "char \<Rightarrow> char" where
  "tolower c = (if CHR ''A'' \<le> c \<and> c \<le> CHR ''Z'' then char_of (of_char c + (32::nat)) else c)"

text \<open>
  \<^verbatim>\<open>std::string::find(needle)\<close>: the first position at which \<open>needle\<close> occurs, \<open>None\<close>
  for \<^verbatim>\<open>npos\<close>.
\<close>

fun string_find :: "string \<Rightarrow> string \<Rightarrow> nat option" where
  "string_find [] needle = (if needle = [] then Some 0 else None)"
| "string_find (c # s) needle =
     (if prefix needle (c # s) then Some 0 else map_option Suc (string_find s needle))"

text \<open>The eight keywords of \<^verbatim>\<open>classifyMemory\<close>, as the UTF-8 bytes of the source file.\<close>

definition KW_work :: string where
  "KW_work = [CHR 0xE5, CHR 0xB7, CHR 0xA5, CHR 0xE4, CHR 0xBD, CHR 0x9C]"

definition KW_project :: string where
  "KW_project = [CHR 0xE9, CHR 0xA1, CHR 0xB9, CHR 0xE7, CHR 0x9B, CHR 0xAE]"

definition KW_family :: string where
  "KW_family = [CHR 0xE5, CHR 0xAE, CHR 0xB6, CHR 0xE5, CHR 0xBA, CHR 0xAD]"

definition KW_parents :: string where
  "KW_parents = [CHR 0xE7, CHR 0x88, CHR 0xB6, CHR 0xE6, CHR 0xAF, CHR 0x8D]"

definition KW_friend :: string where
  "KW_friend = [CHR 0xE6, CHR 0x9C, CHR 0x8B, CHR 0xE5, CHR 0x8F, CHR 0x8B]"

definition KW_party :: string where
  "KW_party = [CHR 0xE8, CHR 0x81, CHR 0x9A, CHR 0xE4, CHR 0xBC, CHR 0x9A]"

definition KW_happy :: string where
  "KW_happy = [CHR 0xE5, CHR 0xBC, CHR 0x80, CHR 0xE5, CHR 0xBF, CHR 0x83]"

definition KW_glad :: string where
  "KW_glad = [CHR 0xE9, CHR 0xAB, CHR 0x98, CHR 0xE5, CHR 0x85, CHR 0xB4]"

definition classifyMemory :: "string \<Rightarrow> MemoryCategory" where
  "classifyMemory c =
     (let lowerContent = map tolower c in
      if string_find lowerContent KW_work \<noteq> None \<or> string_find lowerContent KW_project \<noteq> None
      then Work
      else if string_find lowerContent KW_family \<noteq> None \<or> string_find lowerContent KW_parents \<noteq> None
      then Family
      else if string_find lowerContent KW_friend \<noteq> None \<or> string_find lowerContent KW_party \<noteq> None
      then Friendship
      else if string_find lowerContent KW_happy \<noteq> None \<or> string_find lowerContent KW_glad \<noteq> None
      then Happiness
      else Other)"

text \<open>
  The classifier in the words of the specification: the categories in the order Work,
  Family, Friendship, Happiness, each with its keyword set; the first category one of
  whose keywords is a substring of the lower-cased text, and Other when there is none.
\<close>

definition keyword_table :: "(MemoryCategory \<times> string list) list" where
  "keyword_table =
     [(Work, [KW_work, KW_project]), (Family, [KW_family, KW_parents]),
      (Friendship, [KW_friend, KW_party]), (Happiness, [KW_happy, KW_glad])]"

definition classify_spec :: "string \<Rightarrow> MemoryCategory" where
  "classify_spec text =
     (case filter (\<lambda>(cat, kws). list_ex (\<lambda>kw. sublist kw (map tolower text)) kws) keyword_table of
        [] \<Rightarrow> Other
      | (cat, kws) # rest \<Rightarrow> cat)"

subsection \<open>Collaborators\<close>

text \<open>
  Modelled from the spec: the query cache of \<^verbatim>\<open>lru_cache.h\<close>, a fixed-capacity cache from
  the exact query text to one item with least-recently-used eviction. The entries are
  kept most recently used first.
\<close>

record LRUCache =
  capacity :: nat
  entries :: "(string \<times> MemoryItem) list"

definition cache_get :: "string \<Rightarrow> LRUCache \<Rightarrow> MemoryItem option \<times> LRUCache" where
  "cache_get k c =
     (case map_of (entries c) k of
        None \<Rightarrow> (None, c)
      | Some v \<Rightarrow> (Some v, c\<lparr>entries := (k, v) # filter (\<lambda>e. fst e \<noteq> k) (entries c)\<rparr>))"

definition cache_put :: "string \<Rightarrow> MemoryItem \<Rightarrow> LRUCache \<Rightarrow> LRUCache" where
  "cache_put k v c =
     c\<lparr>entries := take (capacity c) ((k, v) # filter (\<lambda>e. fst e \<noteq> k) (entries c))\<rparr>"

text \<open>The calls the weight collaborator receives, and the events the bus is given.\<close>

datatype WeightCall =
    RecordAccess string string
  | UpdateMemoryWeight string real
  | CleanupExpiredData
  | UpdateWeights "MemoryItem list" string

datatype Event =
    MEMORY_ADDED MemoryItem
  | MEMORY_SEARCHED string
  | WEIGHT_UPDATED string real
  | SYSTEM_STARTED
  | SYSTEM_STOPPED

text \<open>A semantic search collaborator: the number of clean-up calls it has received.\<close>

datatype SemanticSearch = SemanticSearch nat

text \<open>
  The queries the collaborators answer, taken as parameters: the base store's listings
  over the records it was given, and the semantic search's ranked result
  \<^verbatim>\<open>search(query, maxResults, threshold)\<close> as pairs of item and score.
\<close>

record Collaborators =
  getAllMemories :: "(string \<times> MemoryType \<times> MemoryCategory) list \<Rightarrow> MemoryItem list"
  base_getRecentMemories :: "(string \<times> MemoryType \<times> MemoryCategory) list \<Rightarrow> MemoryItem list"
  base_getTopMemories :: "(string \<times> MemoryType \<times> MemoryCategory) list \<Rightarrow> nat \<Rightarrow> MemoryItem list"
  getRelatedMemories :: "(string \<times> MemoryType \<times> MemoryCategory) list \<Rightarrow> string \<Rightarrow> nat \<Rightarrow> MemoryItem list"
  semantic_search :: "SemanticSearch \<Rightarrow> string \<Rightarrow> nat \<Rightarrow> real \<Rightarrow> (MemoryItem \<times> real) list"

subsection \<open>State\<close>

text \<open>
  The members of \<^verbatim>\<open>AdvancedMemoryManager\<close>, and \<open>eventBus\<close>, the events published on
  the \<^verbatim>\<open>EventBus\<close> singleton. The \<^verbatim>\<open>size_t\<close> counters are 64-bit words.
  The weight and the search threshold, \<^verbatim>\<open>float\<close> values that are only passed on,
  are the real numbers they denote; the latency total, on which the class computes, is
  a \<open>float_value\<close>. \<open>eventManager\<close> tells whether the event manager is started,
  \<open>backgroundThread\<close> whether the maintenance thread is joinable. The body of the
  maintenance loop, the three setters of the configuration and the event handlers
  (which only log) are not part of the model.
\<close>

text \<open>
  The \<^verbatim>\<open>float\<close> values the class computes, kept as the terms of the operations that
  produce them: the literal \<^verbatim>\<open>0.0f\<close>, the conversion of a non-negative integer to
  \<^verbatim>\<open>float\<close>, the \<^verbatim>\<open>float\<close> addition and the \<^verbatim>\<open>float\<close> division. What an operation
  rounds to is not modelled: two values that are the same term are the same
  \<^verbatim>\<open>float\<close> in the program, and nothing is said of two different terms.
\<close>

datatype float_value =
    Float_zero
  | Float_of_integer nat
  | Float_add float_value float_value
  | Float_div float_value float_value




record AdvancedMemoryManager =
  asyncManager :: AsyncMemoryManager
  semanticSearch :: "SemanticSearch option"
  weightManager :: "WeightCall list"
  eventManager :: bool
  memoryCache :: LRUCache
  searchThreshold :: real
  cacheSize :: nat
  running :: bool
  backgroundThread :: bool
  totalSearches :: "64 word"
  totalSearchTime :: float_value
  cacheHits :: "64 word"
  cacheMisses :: "64 word"
  eventBus :: "Event list"

text \<open>
  The constructor. The line that would create the semantic search is commented out in
  \<^verbatim>\<open>initializeComponents\<close>, so \<open>semanticSearch\<close> starts, and stays, null.
\<close>

definition AdvancedMemoryManager_new :: AdvancedMemoryManager where
  "AdvancedMemoryManager_new =
     \<lparr> asyncManager = AsyncMemoryManager_new, semanticSearch = None, weightManager = [],
       eventManager = False, memoryCache = \<lparr>capacity = 1000, entries = []\<rparr>,
       searchThreshold = 1 / 2, cacheSize = 1000, running = False, backgroundThread = False,
       totalSearches = 0, totalSearchTime = Float_zero, cacheHits = 0, cacheMisses = 0,
       eventBus = [] \<rparr>"

subsection \<open>Operations\<close>

text \<open>
  \<^verbatim>\<open>addMemory\<close>; \<open>now_async\<close> is the clock read inside
  \<^verbatim>\<open>AsyncMemoryManager::addMemory\<close>, \<open>now\<close> the read of \<^verbatim>\<open>getCurrentTimestamp\<close>.
\<close>

definition addMemory ::
  "string \<Rightarrow> MemoryType \<Rightarrow> MemoryCategory \<Rightarrow> nat \<Rightarrow> nat \<Rightarrow> AdvancedMemoryManager
     \<Rightarrow> AdvancedMemoryManager" where
  "addMemory c t cat now_async now s =
     (if \<not> running s then s
      else
        let cat' = (if cat = Other then classifyMemory c else cat);
            s1 = s\<lparr>asyncManager := addMemory_async c t cat' now_async (asyncManager s)\<rparr>;
            currentTime = to_string now;
            item = \<lparr>content = c, type = t, category = cat', timestamp = currentTime\<rparr>;
            s2 = s1\<lparr>weightManager := weightManager s1 @ [RecordAccess c currentTime]\<rparr>
        in s2\<lparr>eventBus := eventBus s2 @ [MEMORY_ADDED item]\<rparr>)"

text \<open>
  \<^verbatim>\<open>searchMemories\<close>; \<open>duration\<close> is the measured \<^verbatim>\<open>duration.count()\<close> in
  milliseconds, which \<^verbatim>\<open>+=\<close> converts to \<^verbatim>\<open>float\<close> and adds to the total. The result
  is the returned list and the state after the call.
\<close>

definition searchMemories ::
  "Collaborators \<Rightarrow> string \<Rightarrow> nat \<Rightarrow> nat \<Rightarrow> AdvancedMemoryManager
     \<Rightarrow> MemoryItem list \<times> AdvancedMemoryManager" where
  "searchMemories C query maxResults duration s =
     (let (cached, cache') = cache_get query (memoryCache s);
          s0 = s\<lparr>memoryCache := cache'\<rparr>
      in case cached of
           Some item \<Rightarrow> ([item], s0\<lparr>cacheHits := cacheHits s0 + 1\<rparr>)
         | None \<Rightarrow>
             let s1 = s0\<lparr>cacheMisses := cacheMisses s0 + 1\<rparr>;
                 results =
                   (case semanticSearch s1 of
                      Some sem \<Rightarrow> map fst (semantic_search C sem query maxResults (searchThreshold s1))
                    | None \<Rightarrow> getRelatedMemories C (store (asyncManager s1)) query maxResults);
                 s2 = s1\<lparr>totalSearchTime := Float_add (totalSearchTime s1) (Float_of_integer duration)\<rparr>;
                 s3 = s2\<lparr>totalSearches := totalSearches s2 + 1\<rparr>;
                 s4 = (case results of
                         [] \<Rightarrow> s3
                       | first # others \<Rightarrow> s3\<lparr>memoryCache := cache_put query first (memoryCache s3)\<rparr>);
                 s5 = s4\<lparr>eventBus := eventBus s4 @ [MEMORY_SEARCHED query]\<rparr>
             in (results, s5))"

text \<open>
  \<^verbatim>\<open>getRecentMemories(count)\<close> and \<^verbatim>\<open>getTopMemories(count)\<close>; the parameter
  \<^verbatim>\<open>count\<close> is \<open>cnt\<close> here.
\<close>

definition getRecentMemories :: "Collaborators \<Rightarrow> nat \<Rightarrow> AdvancedMemoryManager \<Rightarrow> MemoryItem list" where
  "getRecentMemories C cnt s = base_getRecentMemories C (store (asyncManager s))"

definition getTopMemories :: "Collaborators \<Rightarrow> nat \<Rightarrow> AdvancedMemoryManager \<Rightarrow> MemoryItem list" where
  "getTopMemories C cnt s = base_getTopMemories C (store (asyncManager s)) cnt"

definition updateMemoryWeight :: "string \<Rightarrow> real \<Rightarrow> AdvancedMemoryManager \<Rightarrow> AdvancedMemoryManager" where
  "updateMemoryWeight c weight s =
     (let s1 = s\<lparr>weightManager := weightManager s @ [UpdateMemoryWeight c weight]\<rparr>
      in s1\<lparr>eventBus := eventBus s1 @ [WEIGHT_UPDATED c weight]\<rparr>)"

definition recordMemoryAccess :: "string \<Rightarrow> nat \<Rightarrow> AdvancedMemoryManager \<Rightarrow> AdvancedMemoryManager" where
  "recordMemoryAccess c now s =
     s\<lparr>weightManager := weightManager s @ [RecordAccess c (to_string now)]\<rparr>"

definition cleanupExpiredMemories :: "AdvancedMemoryManager \<Rightarrow> AdvancedMemoryManager" where
  "cleanupExpiredMemories s =
     (let s1 = (case semanticSearch s of
                  Some (SemanticSearch n) \<Rightarrow> s\<lparr>semanticSearch := Some (SemanticSearch (n + 1))\<rparr>
                | None \<Rightarrow> s)
      in s1\<lparr>weightManager := weightManager s1 @ [CleanupExpiredData]\<rparr>)"

text \<open>
  \<^verbatim>\<open>addMemoriesBatch\<close>: \<^verbatim>\<open>addMemory(content, type, MemoryCategory::Other)\<close> for every
  pair in turn; \<open>clock i\<close> gives the two clock reads of the \<open>i\<close>-th call.
\<close>

fun addMemoriesBatch_loop ::
  "(string \<times> MemoryType) list \<Rightarrow> (nat \<Rightarrow> nat \<times> nat) \<Rightarrow> nat \<Rightarrow> AdvancedMemoryManager
     \<Rightarrow> AdvancedMemoryManager" where
  "addMemoriesBatch_loop [] clock i s = s"
| "addMemoriesBatch_loop ((c, t) # memories) clock i s =
     addMemoriesBatch_loop memories clock (Suc i)
       (addMemory c t Other (fst (clock i)) (snd (clock i)) s)"

definition addMemoriesBatch ::
  "(string \<times> MemoryType) list \<Rightarrow> (nat \<Rightarrow> nat \<times> nat) \<Rightarrow> AdvancedMemoryManager
     \<Rightarrow> AdvancedMemoryManager" where
  "addMemoriesBatch memories clock s = addMemoriesBatch_loop memories clock 0 s"

text \<open>
  \<^verbatim>\<open>searchMemoriesBatch\<close>. The first loop runs \<^verbatim>\<open>searchMemories\<close> per query and appends
  the results; \<open>durations i\<close> is the latency measured in the \<open>i\<close>-th call.
\<close>

fun search_all ::
  "Collaborators \<Rightarrow> string list \<Rightarrow> nat \<Rightarrow> (nat \<Rightarrow> nat) \<Rightarrow> nat \<Rightarrow> AdvancedMemoryManager
     \<Rightarrow> MemoryItem list \<times> AdvancedMemoryManager" where
  "search_all C [] maxResults durations i s = ([], s)"
| "search_all C (query # queries) maxResults durations i s =
     (let (results, s1) = searchMemories C query maxResults (durations i) s;
          (allResults, s2) = search_all C queries maxResults durations (Suc i) s1
      in (results @ allResults, s2))"

text \<open>
  The two lambdas of \<^verbatim>\<open>searchMemoriesBatch\<close>: the comparison given to \<^verbatim>\<open>std::sort\<close>,
  \<^verbatim>\<open>a.content < b.content\<close> (bytewise lexicographic, as \<^verbatim>\<open>std::string\<close> compares), and
  the predicate given to \<^verbatim>\<open>std::unique\<close>, \<^verbatim>\<open>a.content == b.content\<close>.
\<close>

definition by_content :: "MemoryItem \<Rightarrow> MemoryItem \<Rightarrow> bool" where
  "by_content a b = (content a < content b)"

definition same_content :: "MemoryItem \<Rightarrow> MemoryItem \<Rightarrow> bool" where
  "same_content a b = (content a = content b)"

text \<open>
  \<^verbatim>\<open>std::unique\<close> with a predicate, followed by the \<^verbatim>\<open>erase\<close>: of every run of
  neighbours that the predicate equates with the element kept last, the first is kept.
\<close>

fun std_unique :: "('a \<Rightarrow> 'a \<Rightarrow> bool) \<Rightarrow> 'a list \<Rightarrow> 'a list" where
  "std_unique pred [] = []"
| "std_unique pred [x] = [x]"
| "std_unique pred (x # y # xs) =
     (if pred x y then std_unique pred (x # xs) else x # std_unique pred (y # xs))"

text \<open>
  What \<^verbatim>\<open>std::sort\<close> guarantees of its result with the comparison \<open>cmp\<close>: a
  rearrangement of the input in which no element is, by \<open>cmp\<close>, less than one before
  it. The order in which it leaves elements that \<open>cmp\<close> does not tell apart is
  unspecified, so the sort is a parameter \<open>std_sort\<close> of \<^verbatim>\<open>searchMemoriesBatch\<close>.
\<close>

definition std_sort_ensures ::
  "(('a \<Rightarrow> 'a \<Rightarrow> bool) \<Rightarrow> 'a list \<Rightarrow> 'a list) \<Rightarrow> ('a \<Rightarrow> 'a \<Rightarrow> bool) \<Rightarrow> bool" where
  "std_sort_ensures std_sort cmp =
     (\<forall>xs. mset (std_sort cmp xs) = mset xs
          \<and> sorted_wrt (\<lambda>a b. \<not> cmp b a) (std_sort cmp xs))"

definition searchMemoriesBatch ::
  "Collaborators \<Rightarrow> ((MemoryItem \<Rightarrow> MemoryItem \<Rightarrow> bool) \<Rightarrow> MemoryItem list \<Rightarrow> MemoryItem list)
     \<Rightarrow> string list \<Rightarrow> nat \<Rightarrow> (nat \<Rightarrow> nat)
     \<Rightarrow> AdvancedMemoryManager \<Rightarrow> MemoryItem list \<times> AdvancedMemoryManager" where
  "searchMemoriesBatch C std_sort queries maxResults durations s =
     (let (allResults, s') = search_all C queries maxResults durations 0 s
      in (std_unique same_content (std_sort by_content allResults), s'))"

text \<open>
  A sequence of calls of \<^verbatim>\<open>searchMemories\<close>, each with its query, its \<^verbatim>\<open>maxResults\<close> and
  its measured latency, and the latencies of those calls of the sequence that miss the
  query cache (\<^verbatim>\<open>memoryCache_->get(query)\<close> finds nothing), in the order of the calls.
\<close>

fun searches ::
  "Collaborators \<Rightarrow> (string \<times> nat \<times> nat) list \<Rightarrow> AdvancedMemoryManager \<Rightarrow> AdvancedMemoryManager" where
  "searches C [] s = s"
| "searches C ((query, maxResults, duration) # calls) s =
     searches C calls (snd (searchMemories C query maxResults duration s))"

definition misses_cache :: "string \<Rightarrow> AdvancedMemoryManager \<Rightarrow> bool" where
  "misses_cache query s = (fst (cache_get query (memoryCache s)) = None)"

fun missed ::
  "Collaborators \<Rightarrow> (string \<times> nat \<times> nat) list \<Rightarrow> AdvancedMemoryManager \<Rightarrow> nat list" where
  "missed C [] s = []"
| "missed C ((query, maxResults, duration) # calls) s =
     (if misses_cache query s then [duration] else [])
       @ missed C calls (snd (searchMemories C query maxResults duration s))"



text \<open>\<^verbatim>\<open>start\<close> and \<^verbatim>\<open>stop\<close>; joining the maintenance thread leaves it not joinable.\<close>

definition start :: "AdvancedMemoryManager \<Rightarrow> AdvancedMemoryManager" where
  "start s =
     (if running s then s
      else s\<lparr>running := True, eventManager := True, backgroundThread := True,
             eventBus := eventBus s @ [SYSTEM_STARTED]\<rparr>)"

definition stop :: "AdvancedMemoryManager \<Rightarrow> AdvancedMemoryManager" where
  "stop s =
     (if \<not> running s then s
      else s\<lparr>running := False, backgroundThread := False, eventManager := False,
             eventBus := eventBus s @ [SYSTEM_STOPPED]\<rparr>)"

text \<open>
  The destructor: \<^verbatim>\<open>stop()\<close>, then the members are destroyed, among them
  \<^verbatim>\<open>asyncManager_\<close>, whose destructor does the last flush.
\<close>

definition AdvancedMemoryManager_destroy :: "AdvancedMemoryManager \<Rightarrow> AdvancedMemoryManager" where
  "AdvancedMemoryManager_destroy s =
     (let s' = stop s in s'\<lparr>asyncManager := AsyncMemoryManager_destroy (asyncManager s')\<rparr>)"

text \<open>
  A session of the orchestrator: construction, \<^verbatim>\<open>start()\<close>, calls of \<^verbatim>\<open>addMemory\<close>
  interleaved with turns of the engine's worker thread, \<^verbatim>\<open>stop()\<close>, destruction.
\<close>

datatype Call = AddMemory string MemoryType MemoryCategory nat nat | WorkerTurn

fun exec :: "Call \<Rightarrow> AdvancedMemoryManager \<Rightarrow> AdvancedMemoryManager" where
  "exec (AddMemory c t cat now_async now) s = addMemory c t cat now_async now s"
| "exec WorkerTurn s = s\<lparr>asyncManager := saveWorker_turn (asyncManager s)\<rparr>"

fun execs :: "Call list \<Rightarrow> AdvancedMemoryManager \<Rightarrow> AdvancedMemoryManager" where
  "execs [] s = s"
| "execs (a # as) s = execs as (exec a s)"

definition session :: "Call list \<Rightarrow> AdvancedMemoryManager" where
  "session calls = AdvancedMemoryManager_destroy (stop (execs calls (start AdvancedMemoryManager_new)))"

text \<open>
  The step of the engine that a call of the orchestrator performs while the system is
  Running: \<^verbatim>\<open>addMemory\<close> hands the item on with the category it settled on.
\<close>

fun engine_step :: "Call \<Rightarrow> Step" where
  "engine_step (AddMemory c t cat now_async now) =
     Add c t (if cat = Other then classifyMemory c else cat) now_async"
| "engine_step WorkerTurn = Worker"

subsection \<open>Test data\<close>

text \<open>The text of the specification's classifier example, in UTF-8.\<close>

definition text_company_project :: string where
  "text_company_project =
     [CHR 0xE5, CHR 0x85, CHR 0xAC, CHR 0xE5, CHR 0x8F, CHR 0xB8, CHR 0xE9, CHR 0xA1, CHR 0xB9,
      CHR 0xE7, CHR 0x9B, CHR 0xAE, CHR 0xE8, CHR 0xBF, CHR 0x9B, CHR 0xE5, CHR 0xB1, CHR 0x95]"

definition all_keywords :: "string list" where
  "all_keywords = concat (map snd keyword_table)"

text \<open>
  One instance of the collaborators, for evaluating the operations on concrete inputs: a
  base store that lists the records it was given, oldest first, ranks them in the same
  order, and relates a record to a query that occurs in its content; no semantic search
  results.
\<close>

definition as_item :: "string \<times> MemoryType \<times> MemoryCategory \<Rightarrow> MemoryItem" where
  "as_item r = \<lparr>content = fst r, type = fst (snd r), category = snd (snd r), timestamp = ''0''\<rparr>"

definition listing_base :: Collaborators where
  "listing_base =
     \<lparr> getAllMemories = map as_item,
       base_getRecentMemories = map as_item,
       base_getTopMemories = (\<lambda>records n. take n (map as_item records)),
       getRelatedMemories =
         (\<lambda>records query n. take n (filter (\<lambda>item. sublist query (content item)) (map as_item records))),
       semantic_search = (\<lambda>sem query n threshold. []) \<rparr>"

text \<open>
  One sort that \<^verbatim>\<open>std::sort\<close> may be, for evaluating \<^verbatim>\<open>searchMemoriesBatch\<close>: insertion
  sort by the comparison it is given.
\<close>

fun insert_sorted :: "('a \<Rightarrow> 'a \<Rightarrow> bool) \<Rightarrow> 'a \<Rightarrow> 'a list \<Rightarrow> 'a list" where
  "insert_sorted cmp x [] = [x]"
| "insert_sorted cmp x (y # ys) =
     (if cmp x y then x # y # ys else y # insert_sorted cmp x ys)"

definition insertion_sort :: "('a \<Rightarrow> 'a \<Rightarrow> bool) \<Rightarrow> 'a list \<Rightarrow> 'a list" where
  "insertion_sort cmp xs = foldr (insert_sorted cmp) xs []"

section \<open>The write-back engine: draining and flushing\<close>

lemma drain_loop_eq:
  "drain_loop q b = (b @ take (BATCH_SIZE - length b) q, drop (BATCH_SIZE - length b) q)"
proof (induction q arbitrary: b)
  case Nil
  then show ?case by simp
next
  case (Cons x q)
  show ?case
  proof (cases "length b < BATCH_SIZE")
    case True
    then have "BATCH_SIZE - length b = Suc (BATCH_SIZE - length (b @ [x]))"
      by simp
    with True Cons show ?thesis by simp
  next
    case False
    then show ?thesis by simp
  qed
qed

lemma saveBatch_fields [simp]:
  "pendingWrites (saveBatch b m) = pendingWrites m"
  "store (saveBatch b m) = store m"
  "base_saves (saveBatch b m) = base_saves m"
  "shouldStop (saveBatch b m) = shouldStop m"
  "isSavingFlag (saveBatch b m) = isSavingFlag m"
  "notified (saveBatch b m) = notified m"
  "saveThread (saveBatch b m) = saveThread m"
  by (induction b arbitrary: m; simp add: write_item_def split: MemoryType.split)+

lemma saveBatch_files:
  "sfile (saveBatch b m) = sfile m @ map line_of (filter (\<lambda>i. type i = Short) b)"
  "mfile (saveBatch b m) = mfile m @ map line_of (filter (\<lambda>i. type i = Mid) b)"
  "lfile (saveBatch b m) = lfile m @ map line_of (filter (\<lambda>i. type i = Long) b)"
  by (induction b arbitrary: m; simp add: write_item_def split: MemoryType.split)+

lemma pending_flushPendingWrites:
  "pendingWrites (flushPendingWrites m) = drop BATCH_SIZE (pendingWrites m)"
  by (simp add: flushPendingWrites_def drain_loop_eq Let_def)

lemma sfile_flushPendingWrites:
  "sfile (flushPendingWrites m) =
     sfile m @ map line_of (filter (\<lambda>i. type i = Short) (take BATCH_SIZE (pendingWrites m)))"
  by (simp add: flushPendingWrites_def drain_loop_eq Let_def saveBatch_files)

lemma pending_addMemory_async:
  "pendingWrites (addMemory_async c t cat now m) =
     pendingWrites m @ [\<lparr>content = c, type = t, category = cat, timestamp = to_string now\<rparr>]"
  by (simp add: addMemory_async_def asyncSave_def Let_def)

lemma pending_saveWorker_turn:
  "pendingWrites (saveWorker_turn m) =
     (if shouldStop m then pendingWrites m else drop BATCH_SIZE (pendingWrites m))"
  by (simp add: saveWorker_turn_def getPendingBatch_def drain_loop_eq Let_def)

lemma pending_run_adds:
  "pendingWrites (run (map (\<lambda>(c, t, cat, now). Add c t cat now) xs) m) =
     pendingWrites m @
       map (\<lambda>(c, t, cat, now). \<lparr>content = c, type = t, category = cat, timestamp = to_string now\<rparr>) xs"
  by (induction xs arbitrary: m) (auto simp: pending_addMemory_async)


lemma to_string_100: "to_string 100 = ''100''"
  by code_simp

lemma drop_100_upt: "drop 100 (map f [0..<101]) = [f 100]"
  by (simp add: drop_map)

lemma pending_save:
  "pendingWrites (save m) = drop BATCH_SIZE (pendingWrites m)"
  by (simp add: save_def Let_def pending_flushPendingWrites)

text \<open>
  Claim C1 says that \<^verbatim>\<open>save()\<close> drains the whole pending queue and leaves it empty.
  \<^verbatim>\<open>flushPendingWrites\<close> takes one batch of at most \<open>BATCH_SIZE\<close> items and does not
  loop: after 101 calls of \<^verbatim>\<open>addMemory\<close> with no turn of the worker in between,
  \<^verbatim>\<open>save()\<close> returns with the 101st item still in the queue.
\<close>

theorem save_after_101_adds_leaves_one_pending:
  "pendingWrites (save (run (map (\<lambda>i. Add (to_string i) Short Work i) [0..<101]) AsyncMemoryManager_new))
     = [\<lparr>content = ''100'', type = Short, category = Work, timestamp = ''100''\<rparr>]"
proof -
  let ?item = "\<lambda>i. \<lparr>content = to_string i, type = Short, category = Work, timestamp = to_string i\<rparr>"
  have m: "map (\<lambda>i. Add (to_string i) Short Work i) [0..<101]
             = map (\<lambda>(c, t, cat, now). Add c t cat now) (map (\<lambda>i. (to_string i, Short, Work, i)) [0..<101])"
    by (simp add: comp_def)
  have p: "pendingWrites (run (map (\<lambda>i. Add (to_string i) Short Work i) [0..<101]) AsyncMemoryManager_new)
             = map ?item [0..<101]"
    by (simp only: m pending_run_adds) (simp add: AsyncMemoryManager_new_def comp_def)
  show ?thesis
    by (simp only: pending_save p BATCH_SIZE_def drop_100_upt to_string_100)
qed

text \<open>
  Claim C5, as stated, says that some fixed bound limits the length of the pending queue
  in every state reachable by calls of \<^verbatim>\<open>addMemory\<close> and turns of the worker. There is
  no such bound.
\<close>

theorem pending_queue_unbounded:
  "\<not> (\<exists>B. \<forall>steps. length (pendingWrites (run steps AsyncMemoryManager_new)) \<le> B)"
proof
  assume "\<exists>B. \<forall>steps. length (pendingWrites (run steps AsyncMemoryManager_new)) \<le> B"
  then obtain B where B: "\<forall>steps. length (pendingWrites (run steps AsyncMemoryManager_new)) \<le> B"
    by blast
  let ?xs = "replicate (Suc B) ([], Short, Other, 0::nat)"
  have "length (pendingWrites (run (map (\<lambda>(c, t, cat, now). Add c t cat now) ?xs) AsyncMemoryManager_new)) = Suc B"
    by (simp only: pending_run_adds) (simp add: AsyncMemoryManager_new_def)
  with B show False
    by (metis Suc_n_not_le_n)
qed

text \<open>
  Claim C5, amended: the pending queue has no bound. Every \<^verbatim>\<open>addMemory\<close> appends one
  item whatever the length of the queue (from \<open>BATCH_SIZE\<close> items on it only signals the
  worker once more), a turn of the worker removes at most \<open>BATCH_SIZE\<close> items, and \<open>n\<close>
  calls of \<^verbatim>\<open>addMemory\<close> with no turn of the worker in between leave \<open>n\<close> items
  pending, for every \<open>n\<close>.
\<close>

theorem pending_queue_growth:
  "length (pendingWrites (addMemory_async c t cat now m)) = length (pendingWrites m) + 1
   \<and> length (pendingWrites (saveWorker_turn m)) =
       (if shouldStop m then length (pendingWrites m) else length (pendingWrites m) - BATCH_SIZE)
   \<and> length (pendingWrites (run (replicate n (Add c t cat now)) AsyncMemoryManager_new)) = n"
proof -
  have "replicate n (Add c t cat now) = map (\<lambda>(c, t, cat, now). Add c t cat now) (replicate n (c, t, cat, now))"
    by simp
  then have "length (pendingWrites (run (replicate n (Add c t cat now)) AsyncMemoryManager_new)) = n"
    by (simp only: pending_run_adds) (simp add: AsyncMemoryManager_new_def)
  then show ?thesis
    by (simp add: pending_addMemory_async pending_saveWorker_turn)
qed

section \<open>The classifier\<close>

lemma string_find_iff: "string_find s n \<noteq> None \<longleftrightarrow> sublist n s"
  by (induction s) (auto simp: sublist_Cons_right)

lemma classifyMemory_sublist:
  "classifyMemory c =
     (if sublist KW_work (map tolower c) \<or> sublist KW_project (map tolower c) then Work
      else if sublist KW_family (map tolower c) \<or> sublist KW_parents (map tolower c) then Family
      else if sublist KW_friend (map tolower c) \<or> sublist KW_party (map tolower c) then Friendship
      else if sublist KW_happy (map tolower c) \<or> sublist KW_glad (map tolower c) then Happiness
      else Other)"
  unfolding classifyMemory_def Let_def string_find_iff ..

lemma classifyMemory_refines: "classifyMemory c = classify_spec c"
  unfolding classifyMemory_sublist
  by (simp add: classify_spec_def keyword_table_def)

lemma classify_company: "classifyMemory text_company_project = Work"
  by code_simp

lemma tolower_keywords:
  "map tolower KW_work = KW_work" "map tolower KW_project = KW_project"
  "map tolower KW_family = KW_family" "map tolower KW_parents = KW_parents"
  "map tolower KW_friend = KW_friend" "map tolower KW_party = KW_party"
  "map tolower KW_happy = KW_happy" "map tolower KW_glad = KW_glad"
  by code_simp+

lemma sublist_tolower:
  assumes "map tolower kw = kw" and "sublist kw c"
  shows "sublist kw (map tolower c)"
proof -
  from assms(2) obtain ps ss where "c = ps @ kw @ ss"
    by (auto simp: sublist_def)
  then have "map tolower c = map tolower ps @ kw @ map tolower ss"
    using assms(1) by simp
  then show ?thesis
    by (auto simp: sublist_def)
qed

text \<open>
  Claim C8: the classifier lower-cases the text and returns the first of Work, Family,
  Friendship, Happiness one of whose keywords is a substring of it, and Other when no
  keyword is; as a function of the text alone it gives the same text the same category
  at every call, and the specification's example text is classified as Work.
\<close>

theorem classifyMemory_is_classify_spec:
  "classifyMemory text = classify_spec text \<and> classifyMemory text_company_project = Work"
  by (rule conjI [OF classifyMemory_refines classify_company])

theorem classifyMemory_is_classify_spec_witness:
  "classify_spec text_company_project = Work
   \<and> classifyMemory ''Hello'' = Other \<and> classify_spec ''Hello'' = Other"
proof -
  have h: "classifyMemory ''Hello'' = Other"
    by code_simp
  from classifyMemory_is_classify_spec [of text_company_project]
  have a: "classify_spec text_company_project = Work"
    by metis
  from classifyMemory_is_classify_spec [of "''Hello''"] h
  have "classify_spec ''Hello'' = Other"
    by metis
  with a h show ?thesis
    by blast
qed

section \<open>The orchestrator: adding and shutting down\<close>

lemma addMemory_stopped: "\<not> running s \<Longrightarrow> addMemory c t cat na n s = s"
  by (simp add: addMemory_def)

lemma addMemoriesBatch_loop_stopped:
  "\<not> running s \<Longrightarrow> addMemoriesBatch_loop ms clock i s = s"
  by (induction ms arbitrary: i) (auto simp: addMemory_stopped)

lemma addMemory_running:
  "running s \<Longrightarrow>
     asyncManager (addMemory c t cat na n s) =
       addMemory_async c t (if cat = Other then classifyMemory c else cat) na (asyncManager s)
     \<and> running (addMemory c t cat na n s)"
  by (simp add: addMemory_def Let_def)

lemma exec_engine_step:
  "running s \<Longrightarrow>
     asyncManager (exec a s) = step (engine_step a) (asyncManager s) \<and> running (exec a s)"
  by (cases a) (simp_all add: addMemory_running)

lemma execs_engine_steps:
  "running s \<Longrightarrow>
     asyncManager (execs calls s) = run (map engine_step calls) (asyncManager s)
     \<and> running (execs calls s)"
  by (induction calls arbitrary: s) (simp_all add: exec_engine_step)

lemma asyncManager_session:
  "asyncManager (session calls) =
     AsyncMemoryManager_destroy (run (map engine_step calls) AsyncMemoryManager_new)"
proof -
  have r: "running (start AdvancedMemoryManager_new)"
    by (simp add: start_def AdvancedMemoryManager_new_def)
  have a: "asyncManager (start AdvancedMemoryManager_new) = AsyncMemoryManager_new"
    by (simp add: start_def AdvancedMemoryManager_new_def)
  have "asyncManager (AdvancedMemoryManager_destroy (stop s)) = AsyncMemoryManager_destroy (asyncManager s)" for s
    by (simp add: AdvancedMemoryManager_destroy_def stop_def Let_def)
  then show ?thesis
    using execs_engine_steps [OF r, of calls] by (simp add: session_def a)
qed

lemma pending_destroy:
  "pendingWrites (AsyncMemoryManager_destroy m) = drop BATCH_SIZE (pendingWrites m)"
  by (simp add: AsyncMemoryManager_destroy_def Let_def pending_flushPendingWrites)

lemma sfile_destroy:
  "sfile (AsyncMemoryManager_destroy m) =
     sfile m @ map line_of (filter (\<lambda>i. type i = Short) (take BATCH_SIZE (pendingWrites m)))"
  by (simp add: AsyncMemoryManager_destroy_def Let_def sfile_flushPendingWrites)

lemma sfile_addMemory_async: "sfile (addMemory_async c t cat now m) = sfile m"
  by (simp add: addMemory_async_def asyncSave_def Let_def)

lemma sfile_run_adds:
  "sfile (run (map (\<lambda>(c, t, cat, now). Add c t cat now) xs) m) = sfile m"
  by (induction xs arbitrary: m) (auto simp: sfile_addMemory_async)

lemma pending_after_101_adds:
  "pendingWrites (run (map (\<lambda>i. Add (to_string i) Short Work i) [0..<101]) AsyncMemoryManager_new)
     = map (\<lambda>i. \<lparr>content = to_string i, type = Short, category = Work, timestamp = to_string i\<rparr>) [0..<101]"
proof -
  have m: "map (\<lambda>i. Add (to_string i) Short Work i) [0..<101]
             = map (\<lambda>(c, t, cat, now). Add c t cat now) (map (\<lambda>i. (to_string i, Short, Work, i)) [0..<101])"
    by (simp add: comp_def)
  show ?thesis
    by (simp only: m pending_run_adds) (simp add: AsyncMemoryManager_new_def comp_def)
qed

lemma sfile_after_101_adds:
  "sfile (run (map (\<lambda>i. Add (to_string i) Short Work i) [0..<101]) AsyncMemoryManager_new) = []"
proof -
  have m: "map (\<lambda>i. Add (to_string i) Short Work i) [0..<101]
             = map (\<lambda>(c, t, cat, now). Add c t cat now) (map (\<lambda>i. (to_string i, Short, Work, i)) [0..<101])"
    by (simp add: comp_def)
  show ?thesis
    by (simp only: m sfile_run_adds) (simp add: AsyncMemoryManager_new_def)
qed

text \<open>
  Claim C2 says that every item added before an orderly shutdown is persisted, also when
  more than 100 are pending. The worker leaves its loop on the stop signal without taking
  a batch, and the destructor calls \<^verbatim>\<open>flushPendingWrites\<close> once, which writes one batch
  of at most \<open>BATCH_SIZE\<close> items: in the session that starts the system, adds 101 Short
  items with no turn of the worker in between, stops and destroys the manager, the
  destination file holds 100 lines and the 101st item is still in the queue that is
  destroyed.
\<close>

theorem shutdown_after_101_adds_drops_one:
  "length (sfile (asyncManager (session (map (\<lambda>i. AddMemory (to_string i) Short Work i i) [0..<101])))) = 100
   \<and> pendingWrites (asyncManager (session (map (\<lambda>i. AddMemory (to_string i) Short Work i i) [0..<101])))
       = [\<lparr>content = ''100'', type = Short, category = Work, timestamp = ''100''\<rparr>]"
proof -
  have e: "map engine_step (map (\<lambda>i. AddMemory (to_string i) Short Work i i) [0..<101])
             = map (\<lambda>i. Add (to_string i) Short Work i) [0..<101]"
    by (simp add: comp_def)
  have p: "pendingWrites (asyncManager (session (map (\<lambda>i. AddMemory (to_string i) Short Work i i) [0..<101])))
             = [\<lparr>content = ''100'', type = Short, category = Work, timestamp = ''100''\<rparr>]"
    by (simp only: asyncManager_session e pending_destroy pending_after_101_adds BATCH_SIZE_def
        drop_100_upt to_string_100)
  have "sfile (asyncManager (session (map (\<lambda>i. AddMemory (to_string i) Short Work i i) [0..<101])))
          = map line_of (filter (\<lambda>i. type i = Short)
              (take 100 (map (\<lambda>i. \<lparr>content = to_string i, type = Short, category = Work, timestamp = to_string i\<rparr>) [0..<101])))"
    by (simp only: asyncManager_session e sfile_destroy pending_after_101_adds sfile_after_101_adds
        BATCH_SIZE_def append_Nil)
  then have "length (sfile (asyncManager (session (map (\<lambda>i. AddMemory (to_string i) Short Work i i) [0..<101])))) = 100"
    by (simp add: take_map filter_map comp_def del: upt.simps)
  with p show ?thesis by blast
qed

text \<open>
  Claim C3, as stated, fails: in the Stopped state that the constructor leaves,
  \<^verbatim>\<open>updateMemoryWeight\<close> updates the weight and publishes its event, and
  \<^verbatim>\<open>cleanupExpiredMemories\<close> purges the weight collaborator.
\<close>

theorem updateMemoryWeight_while_stopped:
  "\<not> running AdvancedMemoryManager_new
   \<and> weightManager (updateMemoryWeight ''a'' 1 AdvancedMemoryManager_new) = [UpdateMemoryWeight ''a'' 1]
   \<and> eventBus (updateMemoryWeight ''a'' 1 AdvancedMemoryManager_new) = [WEIGHT_UPDATED ''a'' 1]
   \<and> weightManager (cleanupExpiredMemories AdvancedMemoryManager_new) = [CleanupExpiredData]"
  by (simp add: updateMemoryWeight_def cleanupExpiredMemories_def AdvancedMemoryManager_new_def Let_def)

text \<open>
  Claim C3, amended: of the mutating operations only \<^verbatim>\<open>addMemory\<close>, and
  \<^verbatim>\<open>addMemoriesBatch\<close> which calls it, check Running; when the system is Stopped they
  return without changing any component state. \<^verbatim>\<open>updateMemoryWeight\<close>,
  \<^verbatim>\<open>recordMemoryAccess\<close> and \<^verbatim>\<open>cleanupExpiredMemories\<close> carry no such check and act
  on the collaborators also when the system is Stopped.
\<close>

theorem stopped_add_is_noop:
  assumes "\<not> running s"
  shows "addMemory c t cat now_async now s = s
         \<and> addMemoriesBatch memories clock s = s
         \<and> weightManager (updateMemoryWeight c w s) = weightManager s @ [UpdateMemoryWeight c w]
         \<and> eventBus (updateMemoryWeight c w s) = eventBus s @ [WEIGHT_UPDATED c w]
         \<and> weightManager (recordMemoryAccess c now s) = weightManager s @ [RecordAccess c (to_string now)]
         \<and> weightManager (cleanupExpiredMemories s) = weightManager s @ [CleanupExpiredData]"
  using assms
  by (simp add: addMemory_stopped addMemoriesBatch_def addMemoriesBatch_loop_stopped
      updateMemoryWeight_def recordMemoryAccess_def cleanupExpiredMemories_def Let_def
      split: option.split SemanticSearch.split)

theorem stopped_add_is_noop_witness:
  "addMemory ''a'' Short Work 1 2 AdvancedMemoryManager_new = AdvancedMemoryManager_new
   \<and> addMemoriesBatch [(''a'', Short), (''b'', Long)] (\<lambda>i. (i, i)) AdvancedMemoryManager_new
       = AdvancedMemoryManager_new
   \<and> weightManager (updateMemoryWeight ''a'' 1 AdvancedMemoryManager_new) = [UpdateMemoryWeight ''a'' 1]"
proof -
  have h: "\<not> running AdvancedMemoryManager_new"
    by (simp add: AdvancedMemoryManager_new_def)
  show ?thesis
    using stopped_add_is_noop [OF h, of "''a''" Short Work 1 2 "[(''a'', Short), (''b'', Long)]" "\<lambda>i. (i, i)" 1]
    by (simp add: AdvancedMemoryManager_new_def)
qed

lemma keyword_classified:
  assumes "kw \<in> set all_keywords" and "sublist kw c"
  shows "classifyMemory c \<noteq> Other"
proof -
  from assms(1) have "map tolower kw = kw"
    by (auto simp: all_keywords_def keyword_table_def tolower_keywords)
  then have "sublist kw (map tolower c)"
    using assms(2) by (rule sublist_tolower)
  with assms(1) show ?thesis
    by (auto simp: classifyMemory_sublist all_keywords_def keyword_table_def)
qed

lemma project_is_Work: "sublist KW_project c \<Longrightarrow> classifyMemory c = Work"
  using sublist_tolower [OF tolower_keywords(2), of c] by (simp add: classifyMemory_sublist)

text \<open>
  Claim C10: while the system is Running, \<^verbatim>\<open>addMemory\<close> called with the category Other
  on a content that contains a classifier keyword stores the classifier's category, which
  is not Other (Work when the keyword is the one for "project"): the call is the same as
  the call with the classifier's category, and the item queued, the record given to the
  base store and the event published all carry that category.
\<close>

theorem addMemory_Other_is_classified:
  assumes "running s" and "kw \<in> set all_keywords" and "sublist kw c"
  shows "classifyMemory c \<noteq> Other
         \<and> addMemory c t Other now_async now s = addMemory c t (classifyMemory c) now_async now s
         \<and> last (pendingWrites (asyncManager (addMemory c t Other now_async now s)))
             = \<lparr>content = c, type = t, category = classifyMemory c, timestamp = to_string now_async\<rparr>
         \<and> last (store (asyncManager (addMemory c t Other now_async now s))) = (c, t, classifyMemory c)
         \<and> last (eventBus (addMemory c t Other now_async now s))
             = MEMORY_ADDED \<lparr>content = c, type = t, category = classifyMemory c, timestamp = to_string now\<rparr>
         \<and> (kw = KW_project \<longrightarrow> classifyMemory c = Work)"
proof -
  have k: "classifyMemory c \<noteq> Other"
    using assms(2,3) by (rule keyword_classified)
  have w: "kw = KW_project \<longrightarrow> classifyMemory c = Work"
    using assms(3) project_is_Work by blast
  show ?thesis
    using assms(1) k w
    by (simp add: addMemory_def addMemory_async_def asyncSave_def Let_def)
qed

theorem addMemory_Other_is_classified_witness:
  "running (start AdvancedMemoryManager_new)
   \<and> KW_project \<in> set all_keywords
   \<and> sublist KW_project text_company_project
   \<and> classifyMemory text_company_project \<noteq> Other
   \<and> last (pendingWrites (asyncManager
        (addMemory text_company_project Long Other 7 8 (start AdvancedMemoryManager_new))))
       = \<lparr>content = text_company_project, type = Long, category = Work, timestamp = ''7''\<rparr>"
proof -
  have r: "running (start AdvancedMemoryManager_new)"
    by (simp add: start_def AdvancedMemoryManager_new_def)
  have k: "KW_project \<in> set all_keywords"
    by (simp add: all_keywords_def keyword_table_def)
  have "string_find text_company_project KW_project \<noteq> None"
    by code_simp
  then have s: "sublist KW_project text_company_project"
    by (simp only: string_find_iff)
  have t: "to_string 7 = ''7''"
    by code_simp
  note th = addMemory_Other_is_classified [OF r k s, of Long 7 8]
  from th have c: "classifyMemory text_company_project \<noteq> Other"
    by blast
  from th have
    "last (pendingWrites (asyncManager
        (addMemory text_company_project Long Other 7 8 (start AdvancedMemoryManager_new))))
       = \<lparr>content = text_company_project, type = Long,
           category = classifyMemory text_company_project, timestamp = to_string 7\<rparr>"
    by blast
  then have
    "last (pendingWrites (asyncManager
        (addMemory text_company_project Long Other 7 8 (start AdvancedMemoryManager_new))))
       = \<lparr>content = text_company_project, type = Long, category = Work, timestamp = ''7''\<rparr>"
    by (simp only: classify_company t)
  with r k s c show ?thesis
    by blast
qed

section \<open>The orchestrator: listings\<close>

text \<open>
  Claim C6 says that \<^verbatim>\<open>getRecentMemories(n)\<close> returns at most \<open>n\<close> items.
  \<^verbatim>\<open>getRecentMemories\<close> never uses its parameter: it returns the base store's listing
  \<^verbatim>\<open>getRecentMemories()\<close> whatever the count, where \<^verbatim>\<open>getTopMemories\<close> passes the count
  on. With a base store that lists the two records it holds, the call with count 1
  returns two items.
\<close>

theorem getRecentMemories_ignores_count:
  "getRecentMemories C n s = getRecentMemories C 0 s
   \<and> length (getRecentMemories listing_base 1
        (addMemory ''b'' Short Work 2 2 (addMemory ''a'' Short Work 1 1 (start AdvancedMemoryManager_new)))) = 2
   \<and> length (getTopMemories listing_base 1
        (addMemory ''b'' Short Work 2 2 (addMemory ''a'' Short Work 1 1 (start AdvancedMemoryManager_new)))) = 1"
  by (simp add: getRecentMemories_def getTopMemories_def listing_base_def addMemory_def
      addMemory_async_def asyncSave_def start_def AdvancedMemoryManager_new_def
      AsyncMemoryManager_new_def Let_def BATCH_SIZE_def)

section \<open>The orchestrator: batch search\<close>

lemma content_std_unique:
  "map content (std_unique same_content xs) = remdups_adj (map content xs)"
  by (induction same_content xs rule: std_unique.induct) (simp_all add: same_content_def)

lemma set_std_unique: "set (std_unique pred xs) \<subseteq> set xs"
  by (induction pred xs rule: std_unique.induct) auto

lemma sorted_remdups_adj_distinct:
  fixes ys :: "'a::linorder list"
  shows "sorted ys \<Longrightarrow> distinct (remdups_adj ys)"
proof (induction ys rule: remdups_adj.induct)
  case (3 x y xs)
  then show ?case
    by (cases "x = y") (auto simp: order.strict_iff_order)
qed simp_all

lemma sorted_by_content:
  "sorted_wrt (\<lambda>a b. \<not> by_content b a) xs \<longleftrightarrow> sorted (map content xs)"
  by (simp add: by_content_def not_less sorted_wrt_map)

lemma searchMemoriesBatch_parts:
  "fst (searchMemoriesBatch C std_sort queries maxResults durations s) =
     std_unique same_content (std_sort by_content (fst (search_all C queries maxResults durations 0 s)))
   \<and> snd (searchMemoriesBatch C std_sort queries maxResults durations s) =
     snd (search_all C queries maxResults durations 0 s)"
  by (simp add: searchMemoriesBatch_def split: prod.split)

lemma search_all_Cons:
  "search_all C (query # queries) maxResults durations i s =
     (fst (searchMemories C query maxResults (durations i) s)
        @ fst (search_all C queries maxResults durations (Suc i)
                (snd (searchMemories C query maxResults (durations i) s))),
      snd (search_all C queries maxResults durations (Suc i)
            (snd (searchMemories C query maxResults (durations i) s))))"
  by (simp split: prod.split)

lemma search_all_shift:
  "search_all C queries maxResults durations (Suc i) s
     = search_all C queries maxResults (\<lambda>j. durations (Suc j)) i s"
  by (induction queries arbitrary: i s) (simp_all split: prod.split)

lemma std_sort_contents:
  assumes "std_sort_ensures std_sort by_content"
  shows "content ` set (std_unique same_content (std_sort by_content xs)) = content ` set xs"
proof -
  from assms have "mset (std_sort by_content xs) = mset xs"
    by (simp add: std_sort_ensures_def)
  then have "set (std_sort by_content xs) = set xs"
    by (rule mset_eq_setD)
  then have "set (map content (std_unique same_content (std_sort by_content xs)))
               = set (map content xs)"
    by (simp add: content_std_unique)
  then show ?thesis
    by simp
qed

lemma searchMemoriesBatch_Nil:
  assumes "std_sort_ensures std_sort by_content"
  shows "searchMemoriesBatch C std_sort [] maxResults durations s = ([], s)"
proof -
  from assms have "mset (std_sort by_content []) = mset ([] :: MemoryItem list)"
    unfolding std_sort_ensures_def by blast
  then have "std_sort by_content [] = []"
    by simp
  then show ?thesis
    by (simp add: searchMemoriesBatch_def)
qed

lemma searchMemoriesBatch_Cons:
  assumes "std_sort_ensures std_sort by_content"
  shows "set (map content (fst (searchMemoriesBatch C std_sort (query # queries) maxResults durations s)))
           = set (map content (fst (searchMemories C query maxResults (durations 0) s)))
             \<union> set (map content (fst (searchMemoriesBatch C std_sort queries maxResults
                  (\<lambda>i. durations (Suc i)) (snd (searchMemories C query maxResults (durations 0) s)))))"
    and "snd (searchMemoriesBatch C std_sort (query # queries) maxResults durations s)
           = snd (searchMemoriesBatch C std_sort queries maxResults
                  (\<lambda>i. durations (Suc i)) (snd (searchMemories C query maxResults (durations 0) s)))"
  by (simp_all add: searchMemoriesBatch_parts std_sort_contents [OF assms] search_all_Cons
      search_all_shift image_Un del: search_all.simps)

text \<open>
  Claim C7: \<^verbatim>\<open>searchMemoriesBatch\<close> runs \<^verbatim>\<open>searchMemories\<close> once per query, in the order
  of the queries and each call on the state the call before it left, and appends the
  results; \<^verbatim>\<open>std::sort\<close> is called with the comparison \<^verbatim>\<open>a.content < b.content\<close> and
  \<^verbatim>\<open>std::unique\<close> with the predicate \<^verbatim>\<open>a.content == b.content\<close>. For every outcome
  \<^verbatim>\<open>std::sort\<close> may have with that comparison (a rearrangement of its input in which no
  item compares less than an item before it), the returned list is sorted by content
  and no two of its items share a content; its items are items of the concatenated
  per-query results and every content of the concatenation occurs in it. For no query
  the result is empty and the state untouched; for a first query and further queries
  the contents returned are the contents of the first query's \<^verbatim>\<open>searchMemories\<close> result
  together with the contents the batch of the further queries returns from the state
  that first call left, and the final state is the final state of that batch.
\<close>

theorem searchMemoriesBatch_sorted_distinct:
  assumes "std_sort_ensures std_sort by_content"
  shows "sorted (map content (fst (searchMemoriesBatch C std_sort queries maxResults durations s)))
         \<and> distinct (map content (fst (searchMemoriesBatch C std_sort queries maxResults durations s)))
         \<and> set (map content (fst (searchMemoriesBatch C std_sort queries maxResults durations s)))
             = set (map content (fst (search_all C queries maxResults durations 0 s)))
         \<and> set (fst (searchMemoriesBatch C std_sort queries maxResults durations s))
             \<subseteq> set (fst (search_all C queries maxResults durations 0 s))
         \<and> snd (searchMemoriesBatch C std_sort queries maxResults durations s)
             = snd (search_all C queries maxResults durations 0 s)
         \<and> search_all C [] maxResults durations i s = ([], s)
         \<and> search_all C (query # queries) maxResults durations i s =
             (fst (searchMemories C query maxResults (durations i) s)
                @ fst (search_all C queries maxResults durations (Suc i)
                        (snd (searchMemories C query maxResults (durations i) s))),
              snd (search_all C queries maxResults durations (Suc i)
                    (snd (searchMemories C query maxResults (durations i) s))))
         \<and> searchMemoriesBatch C std_sort [] maxResults durations s = ([], s)
         \<and> set (map content (fst (searchMemoriesBatch C std_sort (query # queries) maxResults durations s)))
             = set (map content (fst (searchMemories C query maxResults (durations 0) s)))
               \<union> set (map content (fst (searchMemoriesBatch C std_sort queries maxResults
                    (\<lambda>i. durations (Suc i)) (snd (searchMemories C query maxResults (durations 0) s)))))
         \<and> snd (searchMemoriesBatch C std_sort (query # queries) maxResults durations s)
             = snd (searchMemoriesBatch C std_sort queries maxResults
                    (\<lambda>i. durations (Suc i)) (snd (searchMemories C query maxResults (durations 0) s)))"
proof -
  let ?all = "fst (search_all C queries maxResults durations 0 s)"
  let ?sorted = "std_sort by_content ?all"
  from assms have m: "mset ?sorted = mset ?all"
    and sw: "sorted_wrt (\<lambda>a b. \<not> by_content b a) ?sorted"
    by (simp_all add: std_sort_ensures_def)
  from sw have so: "sorted (map content ?sorted)"
    by (simp only: sorted_by_content)
  from m have st: "set ?sorted = set ?all"
    by (rule mset_eq_setD)
  have 1: "sorted (map content (std_unique same_content ?sorted))"
    using so by (simp add: content_std_unique)
  have 2: "distinct (map content (std_unique same_content ?sorted))"
    using so by (simp add: content_std_unique sorted_remdups_adj_distinct)
  have 3: "set (map content (std_unique same_content ?sorted)) = set (map content ?all)"
    using st by (simp add: content_std_unique)
  have 4: "set (std_unique same_content ?sorted) \<subseteq> set ?all"
    using set_std_unique [of same_content ?sorted] st by simp
  have 5: "search_all C [] maxResults durations i s = ([], s)"
    by simp
  have 6: "sorted (map content (fst (searchMemoriesBatch C std_sort queries maxResults durations s)))
         \<and> distinct (map content (fst (searchMemoriesBatch C std_sort queries maxResults durations s)))
         \<and> set (map content (fst (searchMemoriesBatch C std_sort queries maxResults durations s)))
             = set (map content (fst (search_all C queries maxResults durations 0 s)))
         \<and> set (fst (searchMemoriesBatch C std_sort queries maxResults durations s))
             \<subseteq> set (fst (search_all C queries maxResults durations 0 s))
         \<and> snd (searchMemoriesBatch C std_sort queries maxResults durations s)
             = snd (search_all C queries maxResults durations 0 s)"
    using 1 2 3 4 by (simp only: searchMemoriesBatch_parts simp_thms)
  from 6 5 search_all_Cons [of C query queries maxResults durations i s]
    searchMemoriesBatch_Nil [OF assms, of C maxResults durations s]
    searchMemoriesBatch_Cons [OF assms, of C query queries maxResults durations s]
  show ?thesis
    by blast
qed

lemma mset_insert_sorted: "mset (insert_sorted cmp x ys) = add_mset x (mset ys)"
  by (induction ys) simp_all

lemma set_insert_sorted: "set (insert_sorted cmp x ys) = insert x (set ys)"
  by (induction ys) auto

lemma sorted_insert_sorted:
  "sorted_wrt (\<lambda>a b. \<not> by_content b a) ys
     \<Longrightarrow> sorted_wrt (\<lambda>a b. \<not> by_content b a) (insert_sorted by_content x ys)"
  by (induction ys) (auto simp: set_insert_sorted by_content_def)

lemma mset_insertion_sort: "mset (insertion_sort cmp xs) = mset xs"
  by (induction xs) (simp_all add: insertion_sort_def mset_insert_sorted)

lemma insertion_sort_ensures: "std_sort_ensures insertion_sort by_content"
proof -
  have "sorted_wrt (\<lambda>a b. \<not> by_content b a) (insertion_sort by_content xs)" for xs
    by (induction xs) (simp_all add: insertion_sort_def sorted_insert_sorted)
  then show ?thesis
    by (simp add: std_sort_ensures_def mset_insertion_sort)
qed

lemma batch_example:
  "map content (fst (searchMemoriesBatch listing_base insertion_sort [''b'', ''a'', ''b''] 10 (\<lambda>i. 3)
        (addMemory ''ab'' Short Work 2 2 (addMemory ''b'' Short Work 1 1 (start AdvancedMemoryManager_new)))))
       = [''ab'', ''b'']"
  by code_simp

lemma search_all_example:
  "map content (fst (search_all listing_base [''b'', ''a'', ''b''] 10 (\<lambda>i. 3) 0
        (addMemory ''ab'' Short Work 2 2 (addMemory ''b'' Short Work 1 1 (start AdvancedMemoryManager_new)))))
       = [''b'', ''ab'', ''ab'', ''b'']"
  by code_simp

theorem searchMemoriesBatch_sorted_distinct_witness:
  "std_sort_ensures insertion_sort by_content
   \<and> sorted (map content (fst (searchMemoriesBatch listing_base insertion_sort [''b'', ''a'', ''b''] 10 (\<lambda>i. 3)
        (addMemory ''ab'' Short Work 2 2 (addMemory ''b'' Short Work 1 1 (start AdvancedMemoryManager_new))))))
   \<and> distinct (map content (fst (searchMemoriesBatch listing_base insertion_sort [''b'', ''a'', ''b''] 10 (\<lambda>i. 3)
        (addMemory ''ab'' Short Work 2 2 (addMemory ''b'' Short Work 1 1 (start AdvancedMemoryManager_new))))))
   \<and> map content (fst (searchMemoriesBatch listing_base insertion_sort [''b'', ''a'', ''b''] 10 (\<lambda>i. 3)
        (addMemory ''ab'' Short Work 2 2 (addMemory ''b'' Short Work 1 1 (start AdvancedMemoryManager_new)))))
       = [''ab'', ''b'']
   \<and> map content (fst (search_all listing_base [''b'', ''a'', ''b''] 10 (\<lambda>i. 3) 0
        (addMemory ''ab'' Short Work 2 2 (addMemory ''b'' Short Work 1 1 (start AdvancedMemoryManager_new)))))
       = [''b'', ''ab'', ''ab'', ''b'']"
  using searchMemoriesBatch_sorted_distinct [OF insertion_sort_ensures, of listing_base
      "[''b'', ''a'', ''b'']" 10 "\<lambda>i. 3"
      "addMemory ''ab'' Short Work 2 2 (addMemory ''b'' Short Work 1 1 (start AdvancedMemoryManager_new))"]
    insertion_sort_ensures batch_example search_all_example
  by blast

section \<open>The orchestrator: search and statistics\<close>

lemma searchMemories_hit:
  assumes "\<not> misses_cache query s"
  shows "totalSearches (snd (searchMemories C query maxResults duration s)) = totalSearches s"
    and "totalSearchTime (snd (searchMemories C query maxResults duration s)) = totalSearchTime s"
    and "cacheHits (snd (searchMemories C query maxResults duration s)) = cacheHits s + 1"
    and "cacheMisses (snd (searchMemories C query maxResults duration s)) = cacheMisses s"
    and "eventBus (snd (searchMemories C query maxResults duration s)) = eventBus s"
    and "fst (searchMemories C query maxResults duration s)
           = [the (fst (cache_get query (memoryCache s)))]"
  using assms
  by (auto simp: misses_cache_def searchMemories_def Let_def
      split: prod.splits option.splits list.splits)

lemma searchMemories_miss:
  assumes "misses_cache query s"
  shows "totalSearches (snd (searchMemories C query maxResults duration s)) = totalSearches s + 1"
    and "totalSearchTime (snd (searchMemories C query maxResults duration s))
           = Float_add (totalSearchTime s) (Float_of_integer duration)"
    and "cacheHits (snd (searchMemories C query maxResults duration s)) = cacheHits s"
    and "cacheMisses (snd (searchMemories C query maxResults duration s)) = cacheMisses s + 1"
    and "eventBus (snd (searchMemories C query maxResults duration s))
           = eventBus s @ [MEMORY_SEARCHED query]"
  using assms
  by (auto simp: misses_cache_def searchMemories_def Let_def
      split: prod.splits option.splits list.splits)

lemma length_missed: "length (missed C calls s) \<le> length calls"
  by (induction C calls s rule: missed.induct) auto

lemma totalSearches_searches:
  "totalSearches (searches C calls s) = totalSearches s + of_nat (length (missed C calls s))"
  by (induction C calls s rule: searches.induct)
    (simp_all add: searchMemories_hit searchMemories_miss)

lemma cacheMisses_searches:
  "cacheMisses (searches C calls s) = cacheMisses s + of_nat (length (missed C calls s))"
  by (induction C calls s rule: searches.induct)
    (simp_all add: searchMemories_hit searchMemories_miss)

lemma cacheHits_searches:
  "cacheHits (searches C calls s)
     = cacheHits s + of_nat (length calls - length (missed C calls s))"
proof (induction C calls s rule: searches.induct)
  case (2 C query maxResults duration calls s)
  let ?s = "snd (searchMemories C query maxResults duration s)"
  have "length (missed C calls ?s) \<le> length calls"
    by (rule length_missed)
  then have "Suc (length calls) - length (missed C calls ?s)
               = Suc (length calls - length (missed C calls ?s))"
    by simp
  with 2 show ?case
    by (simp add: searchMemories_hit searchMemories_miss)
qed simp

lemma totalSearchTime_searches:
  "totalSearchTime (searches C calls s)
     = foldl (\<lambda>total duration. Float_add total (Float_of_integer duration))
         (totalSearchTime s) (missed C calls s)"
  by (induction C calls s rule: searches.induct)
    (simp_all add: searchMemories_hit searchMemories_miss)

text \<open>
  Claim C4, as stated, fails: a call of \<^verbatim>\<open>searchMemories\<close> that hits the query cache
  returns before the statistics are updated. After two calls with the same query, the
  first a miss that fills the cache and the second a hit, the counter of searches is 1
  and the latency total is the \<^verbatim>\<open>float\<close> sum of zero and the first call's latency alone.
\<close>

theorem cache_hit_not_counted:
  "totalSearches (snd (searchMemories listing_base ''q'' 10 7
      (snd (searchMemories listing_base ''q'' 10 5
         (addMemory ''q'' Short Work 1 1 (start AdvancedMemoryManager_new)))))) = 1
   \<and> cacheHits (snd (searchMemories listing_base ''q'' 10 7
      (snd (searchMemories listing_base ''q'' 10 5
         (addMemory ''q'' Short Work 1 1 (start AdvancedMemoryManager_new)))))) = 1
   \<and> cacheMisses (snd (searchMemories listing_base ''q'' 10 7
      (snd (searchMemories listing_base ''q'' 10 5
         (addMemory ''q'' Short Work 1 1 (start AdvancedMemoryManager_new)))))) = 1
   \<and> totalSearchTime (snd (searchMemories listing_base ''q'' 10 7
      (snd (searchMemories listing_base ''q'' 10 5
         (addMemory ''q'' Short Work 1 1 (start AdvancedMemoryManager_new))))))
       = Float_add Float_zero (Float_of_integer 5)"
  by code_simp

text \<open>
  Claim C4, amended: a call of \<^verbatim>\<open>searchMemories\<close> that misses the query cache adds one
  to the counter of searches and to the counter of misses, adds the measured latency to
  the latency total by one \<^verbatim>\<open>float\<close> addition and publishes the search event; a call
  that hits the cache returns the cached item, adds one to the counter of hits, and
  leaves the counter of searches, the latency total and the event bus as they were.
  After any sequence of calls, from any state, the counter of searches and the counter
  of misses have each grown by the number of calls that missed the cache, and the
  counter of hits by the number of the other calls, in the arithmetic of \<^verbatim>\<open>size_t\<close>
  (modulo \<open>2 ^ 64\<close>); the latency total is the \<^verbatim>\<open>float\<close> sum, taken in the order of the
  calls, of the latencies of the calls that missed. Starting from a newly constructed
  system the counter of searches is the number of calls that missed, modulo \<open>2 ^ 64\<close>.
\<close>

theorem searchMemories_counts_misses:
  assumes "searchMemories C query maxResults duration s = (results, s')"
  shows "(case fst (cache_get query (memoryCache s)) of
            Some item \<Rightarrow>
              results = [item] \<and> totalSearches s' = totalSearches s
              \<and> totalSearchTime s' = totalSearchTime s
              \<and> cacheHits s' = cacheHits s + 1 \<and> cacheMisses s' = cacheMisses s
              \<and> eventBus s' = eventBus s
          | None \<Rightarrow>
              totalSearches s' = totalSearches s + 1
              \<and> totalSearchTime s' = Float_add (totalSearchTime s) (Float_of_integer duration)
              \<and> cacheMisses s' = cacheMisses s + 1 \<and> cacheHits s' = cacheHits s
              \<and> eventBus s' = eventBus s @ [MEMORY_SEARCHED query])
         \<and> totalSearches (searches C calls s)
             = totalSearches s + of_nat (length (missed C calls s))
         \<and> cacheMisses (searches C calls s)
             = cacheMisses s + of_nat (length (missed C calls s))
         \<and> cacheHits (searches C calls s)
             = cacheHits s + of_nat (length calls - length (missed C calls s))
         \<and> totalSearchTime (searches C calls s)
             = foldl (\<lambda>total duration. Float_add total (Float_of_integer duration))
                 (totalSearchTime s) (missed C calls s)
         \<and> length (missed C calls s) \<le> length calls
         \<and> unat (totalSearches (searches C calls s))
             = (unat (totalSearches s) + length (missed C calls s)) mod 2 ^ 64
         \<and> unat (totalSearches (searches C calls AdvancedMemoryManager_new))
             = length (missed C calls AdvancedMemoryManager_new) mod 2 ^ 64"
proof -
  have 1: "(case fst (cache_get query (memoryCache s)) of
            Some item \<Rightarrow>
              results = [item] \<and> totalSearches s' = totalSearches s
              \<and> totalSearchTime s' = totalSearchTime s
              \<and> cacheHits s' = cacheHits s + 1 \<and> cacheMisses s' = cacheMisses s
              \<and> eventBus s' = eventBus s
          | None \<Rightarrow>
              totalSearches s' = totalSearches s + 1
              \<and> totalSearchTime s' = Float_add (totalSearchTime s) (Float_of_integer duration)
              \<and> cacheMisses s' = cacheMisses s + 1 \<and> cacheHits s' = cacheHits s
              \<and> eventBus s' = eventBus s @ [MEMORY_SEARCHED query])"
    using assms
    by (auto simp: searchMemories_def Let_def split: prod.splits option.splits list.splits)
  have "totalSearches AdvancedMemoryManager_new = 0"
    by (simp add: AdvancedMemoryManager_new_def)
  then have 2: "unat (totalSearches (searches C calls AdvancedMemoryManager_new))
             = length (missed C calls AdvancedMemoryManager_new) mod 2 ^ 64"
    by (simp add: totalSearches_searches unat_of_nat)
  have 3: "unat (totalSearches (searches C calls s))
             = (unat (totalSearches s) + length (missed C calls s)) mod 2 ^ 64"
    by (simp add: totalSearches_searches unat_word_ariths unat_of_nat mod_simps)
  from 1 2 3 totalSearches_searches [of C calls s] cacheMisses_searches [of C calls s]
    cacheHits_searches [of C calls s] totalSearchTime_searches [of C calls s]
    length_missed [of C calls s]
  show ?thesis
    by blast
qed

theorem searchMemories_counts_misses_witness:
  "totalSearches (snd (searchMemories listing_base ''q'' 10 5
      (addMemory ''q'' Short Work 1 1 (start AdvancedMemoryManager_new)))) = 1
   \<and> totalSearchTime (snd (searchMemories listing_base ''q'' 10 5
      (addMemory ''q'' Short Work 1 1 (start AdvancedMemoryManager_new))))
       = Float_add Float_zero (Float_of_integer 5)
   \<and> missed listing_base [(''q'', 10, 5), (''q'', 10, 7), (''r'', 10, 9)]
       (addMemory ''q'' Short Work 1 1 (start AdvancedMemoryManager_new)) = [5, 9]
   \<and> totalSearches (searches listing_base [(''q'', 10, 5), (''q'', 10, 7), (''r'', 10, 9)]
       (addMemory ''q'' Short Work 1 1 (start AdvancedMemoryManager_new))) = 2
   \<and> cacheHits (searches listing_base [(''q'', 10, 5), (''q'', 10, 7), (''r'', 10, 9)]
       (addMemory ''q'' Short Work 1 1 (start AdvancedMemoryManager_new))) = 1"
proof -
  let ?s = "addMemory ''q'' Short Work 1 1 (start AdvancedMemoryManager_new)"
  let ?calls = "[(''q'', 10, 5), (''q'', 10, 7), (''r'', 10::nat, 9::nat)]"
  have c: "fst (cache_get ''q'' (memoryCache ?s)) = None"
    by code_simp
  have n: "totalSearches ?s = 0" "cacheHits ?s = 0" "totalSearchTime ?s = Float_zero"
    by code_simp+
  have m: "missed listing_base ?calls ?s = [5, 9]"
    by code_simp
  note t = searchMemories_counts_misses [OF prod.collapse [symmetric],
      of listing_base "''q''" 10 5 ?s ?calls]
  from t have 1: "case fst (cache_get ''q'' (memoryCache ?s)) of
            Some item \<Rightarrow>
              fst (searchMemories listing_base ''q'' 10 5 ?s) = [item]
              \<and> totalSearches (snd (searchMemories listing_base ''q'' 10 5 ?s)) = totalSearches ?s
              \<and> totalSearchTime (snd (searchMemories listing_base ''q'' 10 5 ?s)) = totalSearchTime ?s
              \<and> cacheHits (snd (searchMemories listing_base ''q'' 10 5 ?s)) = cacheHits ?s + 1
              \<and> cacheMisses (snd (searchMemories listing_base ''q'' 10 5 ?s)) = cacheMisses ?s
              \<and> eventBus (snd (searchMemories listing_base ''q'' 10 5 ?s)) = eventBus ?s
          | None \<Rightarrow>
              totalSearches (snd (searchMemories listing_base ''q'' 10 5 ?s)) = totalSearches ?s + 1
              \<and> totalSearchTime (snd (searchMemories listing_base ''q'' 10 5 ?s))
                  = Float_add (totalSearchTime ?s) (Float_of_integer 5)
              \<and> cacheMisses (snd (searchMemories listing_base ''q'' 10 5 ?s)) = cacheMisses ?s + 1
              \<and> cacheHits (snd (searchMemories listing_base ''q'' 10 5 ?s)) = cacheHits ?s
              \<and> eventBus (snd (searchMemories listing_base ''q'' 10 5 ?s))
                  = eventBus ?s @ [MEMORY_SEARCHED ''q'']"
    by (rule conjunct1)
  from 1 have a: "totalSearches (snd (searchMemories listing_base ''q'' 10 5 ?s)) = 1"
    and b: "totalSearchTime (snd (searchMemories listing_base ''q'' 10 5 ?s))
              = Float_add Float_zero (Float_of_integer 5)"
    unfolding c n by simp_all
  from t have 2: "totalSearches (searches listing_base ?calls ?s)
                    = totalSearches ?s + of_nat (length (missed listing_base ?calls ?s))"
    and 3: "cacheHits (searches listing_base ?calls ?s)
              = cacheHits ?s + of_nat (length ?calls - length (missed listing_base ?calls ?s))"
    by blast+
  from 2 have d: "totalSearches (searches listing_base ?calls ?s) = 2"
    unfolding m n by simp
  from 3 have e: "cacheHits (searches listing_base ?calls ?s) = 1"
    unfolding m n by simp
  from a b m d e show ?thesis
    by blast
qed







end
